theory Spec2Isabelle
  imports Main
begin

section \<open>Python strings and paths\<close>

text \<open>
  Text is a \<^typ>\<open>string\<close>, and a \<^typ>\<open>char\<close> stands for the Unicode code point of
  its number, so the model covers text whose code points are below 256; \<open>length\<close> is
  Python's \<open>len\<close> and a slice \<open>s[:n]\<close> is \<open>take n s\<close>. The library functions below are
  the ones the repository calls on strings: \<open>str.isspace\<close>, \<open>str.strip\<close>,
  \<open>str.lower\<close>, \<open>str.join\<close>, \<open>str.split\<close> and \<open>pathlib.Path(...).suffix\<close>.
\<close>

definition newline :: char where
  "newline = CHR 0x0A"

text \<open>
  \<open>str.isspace\<close> on one character. Below 256 Python's whitespace is: tab, line feed,
  vertical tab, form feed, carriage return (9 to 13), the four separators 28 to 31, the
  space (32), next line (133, U+0085) and the no-break space (160, U+00A0).
\<close>

definition isspace :: "char \<Rightarrow> bool" where
  "isspace c =
     (let n = (of_char c :: nat)
      in (9 \<le> n \<and> n \<le> 13) \<or> (28 \<le> n \<and> n \<le> 32) \<or> n = 133 \<or> n = 160)"

definition strip :: "string \<Rightarrow> string" where
  "strip s = rev (dropWhile isspace (rev (dropWhile isspace s)))"

text \<open>
  \<open>str.lower\<close> on one character: below 256 the upper-case letters are \<open>A\<close> to \<open>Z\<close>
  (65 to 90) and 192 to 222 without the multiplication sign 215, each 32 below its
  lower-case letter.
\<close>

definition lower_char :: "char \<Rightarrow> char" where
  "lower_char c =
     (let n = (of_char c :: nat)
      in if (65 \<le> n \<and> n \<le> 90) \<or> (192 \<le> n \<and> n \<le> 222 \<and> n \<noteq> 215)
         then char_of (n + 32) else c)"

definition lower :: "string \<Rightarrow> string" where
  "lower s = map lower_char s"

fun join :: "string \<Rightarrow> string list \<Rightarrow> string" where
  "join sep [] = []"
| "join sep [x] = x"
| "join sep (x # y # ys) = x @ sep @ join sep (y # ys)"

text \<open>\<open>str(n)\<close> of a natural number: its decimal digits.\<close>

fun str_nat :: "nat \<Rightarrow> string" where
  "str_nat n = (if n < 10 then [char_of (48 + n)] else str_nat (n div 10) @ [char_of (48 + n mod 10)])"

declare str_nat.simps [simp del]

fun split_on :: "char \<Rightarrow> string \<Rightarrow> string list" where
  "split_on sep [] = [[]]"
| "split_on sep (c # cs) =
     (if c = sep then [] # split_on sep cs
      else (case split_on sep cs of [] \<Rightarrow> [[c]] | p # ps \<Rightarrow> (c # p) # ps))"

text \<open>
  \<open>Path(p).name\<close> of a POSIX path: the last component, where empty components and
  single dots are dropped when the path is parsed.
\<close>

definition path_name :: "string \<Rightarrow> string" where
  "path_name p =
     (case filter (\<lambda>c. c \<noteq> [] \<and> c \<noteq> ''.'') (split_on (CHR ''/'') p) of
        [] \<Rightarrow> []
      | c # cs \<Rightarrow> last (c # cs))"

text \<open>\<open>s.rfind('.')\<close>: the index of the last dot, \<open>None\<close> for Python's \<open>-1\<close>.\<close>

fun rfind_from :: "char \<Rightarrow> string \<Rightarrow> nat \<Rightarrow> nat option" where
  "rfind_from ch [] i = None"
| "rfind_from ch (c # cs) i =
     (case rfind_from ch cs (Suc i) of
        Some j \<Rightarrow> Some j
      | None \<Rightarrow> if c = ch then Some i else None)"

text \<open>
  \<open>Path(p).suffix\<close>: with \<open>i = name.rfind('.')\<close>, the slice \<open>name[i:]\<close> when
  \<open>0 < i < len(name) - 1\<close>, and the empty string otherwise.
\<close>

definition path_suffix :: "string \<Rightarrow> string" where
  "path_suffix p =
     (let name = path_name p in
      case rfind_from (CHR ''.'') name 0 of
        None \<Rightarrow> []
      | Some i \<Rightarrow> if 0 < i \<and> Suc i < length name then drop i name else [])"

definition file_ext :: "string \<Rightarrow> string" where
  "file_ext p = lower (path_suffix p)"

section \<open>Documents\<close>

type_synonym metadata = "string \<rightharpoonup> string"

record document =
  page_content :: string
  metadata :: metadata

text \<open>\<open>d.get(key, default)\<close> on a dictionary.\<close>

definition dict_get :: "metadata \<Rightarrow> string \<Rightarrow> string \<Rightarrow> string" where
  "dict_get m k dflt = (case m k of None \<Rightarrow> dflt | Some v \<Rightarrow> v)"

section \<open>chains/rag_chain.py: the context block\<close>

text \<open>
  \<open>format_docs\<close> joins, with \<open>'\n\n'\<close>, one f-string per document:
  \<open>f'Source: {d.metadata.get('source', '')}\n {d.page_content}'\<close>.
\<close>

definition format_doc :: "document \<Rightarrow> string" where
  "format_doc d =
     ''Source: '' @ dict_get (metadata d) ''source'' [] @ [newline, CHR '' ''] @ page_content d"

definition format_docs :: "document list \<Rightarrow> string" where
  "format_docs docs = join [newline, newline] (map format_doc docs)"

section \<open>Exceptions\<close>

text \<open>
  A Python exception is a value; a call that can raise returns \<open>exn + 'a\<close> with
  \<open>Inl\<close> for the exception. \<open>HTTPException\<close> carries \<open>status_code\<close> and \<open>detail\<close>.
\<close>

datatype exn = Exception string | ValueError string | HTTPException nat string

record splitter_config =
  chunk_size :: nat
  chunk_overlap :: nat
  separators :: "string list"

section \<open>ingestion/loader.py\<close>

text \<open>The four document loaders are third-party; \<open>load\<close> of each is a parameter.\<close>

record loaders =
  pdf_loader :: "string \<Rightarrow> exn + document list"
  docx_loader :: "string \<Rightarrow> exn + document list"
  text_loader :: "string \<Rightarrow> exn + document list"
  web_loader :: "string \<Rightarrow> exn + document list"

definition load_file :: "loaders \<Rightarrow> string \<Rightarrow> exn + document list" where
  "load_file L file_path =
     (let ext = file_ext file_path in
      if ext = ''.pdf'' then pdf_loader L file_path
      else if ext = ''.docx'' then docx_loader L file_path
      else if ext = ''.txt'' then text_loader L file_path
      else Inl (ValueError ''unsupported file format''))"

definition load_url :: "loaders \<Rightarrow> string \<Rightarrow> exn + document list" where
  "load_url L url = web_loader L url"

section \<open>External collaborators\<close>

text \<open>
  The third-party libraries, the file system and the network services the repository
  calls are parameters of the model, collected in one record:
  \<^item> \<open>split_documents\<close>: \<open>RecursiveCharacterTextSplitter(...).split_documents\<close>, given
    the splitter's constructor arguments;
  \<^item> \<open>embed_documents\<close>, \<open>embed_query\<close>: the embedding endpoint, \<open>Some e\<close> when the
    call raises \<open>e\<close>;
  \<^item> \<open>empty_batch_message\<close>: the message of the \<open>ValueError\<close> that the vector store's
    \<open>add_documents\<close> raises on an empty list of documents;
  \<^item> \<open>distance\<close>: the index's metric between a question and a stored document (only
    its order matters);
  \<^item> \<open>chain_invoke\<close>: \<open>prompt | llm | StrOutputParser\<close> on a context and a question;
  \<^item> \<open>chain_setup\<close>: \<open>get_llm()\<close> and \<open>build_rag_chain(llm)\<close> when the service is built;
  \<^item> \<open>doc_loaders\<close>: the loaders behind \<open>DocumentLoader\<close>;
  \<^item> \<open>save_upload\<close>: writing an upload's bytes to \<open>os.path.join(temp_dir, filename)\<close>,
    \<open>Some e\<close> when \<open>open\<close> or \<open>write\<close> raises \<open>e\<close>;
  \<^item> \<open>read_txt\<close>, \<open>pdf_pages\<close>, \<open>docx_paragraphs\<close>: the file readers behind the upload
    extractors, on the saved bytes;
  \<^item> \<open>http_str\<close>: \<open>str(e)\<close> of an \<open>HTTPException\<close>.
\<close>

record ext =
  split_documents :: "splitter_config \<Rightarrow> document list \<Rightarrow> document list"
  embed_documents :: "string list \<Rightarrow> exn option"
  embed_query :: "string \<Rightarrow> exn option"
  empty_batch_message :: string
  distance :: "string \<Rightarrow> document \<Rightarrow> nat"
  chain_invoke :: "string \<Rightarrow> string \<Rightarrow> exn + string"
  chain_setup :: "exn option"
  doc_loaders :: loaders
  save_upload :: "string \<Rightarrow> string \<Rightarrow> exn option"
  read_txt :: "string \<Rightarrow> exn + string"
  pdf_pages :: "string \<Rightarrow> exn + string list"
  docx_paragraphs :: "string \<Rightarrow> exn + string list"
  http_str :: "nat \<Rightarrow> string \<Rightarrow> string"

definition str_exn :: "ext \<Rightarrow> exn \<Rightarrow> string" where
  "str_exn X e =
     (case e of
        Exception m \<Rightarrow> m
      | ValueError m \<Rightarrow> m
      | HTTPException status detail \<Rightarrow> http_str X status detail)"

section \<open>ingestion/chunker.py and vectorstore/store.py\<close>




text \<open>
  The module loads one hard-coded document when it is imported, and leaves the list of
  split documents empty: the call of \<open>splitter.split_documents\<close> is commented out.
\<close>

definition backslash :: char where
  "backslash = CHR 0x5C"

definition chunker_path :: string where
  "chunker_path =
     ''C:'' @ [backslash] @ ''Users'' @ [backslash] @ ''uoy'' @ [backslash] @ ''Desktop'' @
     [backslash] @ ''Document QA System'' @ [backslash] @ ''test doc.docx''"

definition chunker_docs :: "ext \<Rightarrow> exn + document list" where
  "chunker_docs X = load_file (doc_loaders X) chunker_path"


definition dummy_doc :: document where
  "dummy_doc = \<lparr>page_content = ''Placeholder'', metadata = [''source'' \<mapsto> ''system'']\<rparr>"

text \<open>
  \<open>vectorstore/store.py\<close> imports the chunker module, so the load above runs first and
  its exception ends the import. Then
  \<open>vector_store = FAISS.from_documents([dummy_doc], embddings)\<close>: the texts are embedded,
  then stored. The index is modelled by its documents in insertion order.
\<close>

definition vector_store :: "ext \<Rightarrow> exn + document list" where
  "vector_store X =
     (case chunker_docs X of
        Inl e \<Rightarrow> Inl e
      | Inr docs \<Rightarrow>
          (case embed_documents X (map page_content [dummy_doc]) of
             Some e \<Rightarrow> Inl e
           | None \<Rightarrow> Inr [dummy_doc]))"

section \<open>services/qa_service.py\<close>

text \<open>
  The service object: \<open>vectorstore\<close> is its only mutable part. \<open>calls\<close> records the
  external calls made so far, so that "no model call" can be stated.
\<close>

datatype call = EmbedDocuments "string list" | EmbedQuery string | ChainInvoke string string

record qa_state =
  vectorstore :: "document list"
  calls :: "call list"

definition text_splitter :: splitter_config where
  "text_splitter =
     \<lparr>chunk_size = 810, chunk_overlap = 150,
      separators = [[newline, newline], [newline], ''.'', '' '', '''']\<rparr>"

definition retriever_k :: nat where
  "retriever_k = 4"

text \<open>
  Modelled from the spec: \<open>retrievers/base.py\<close> (\<open>get_retriver\<close>, which builds the
  retriever over the vector store) is not among the sources. Following the spec's
  Index and Retriever contracts, a query returns up to \<open>k\<close> stored chunks ranked by
  similarity, ties broken by insertion order, and the retriever embeds the question and
  delegates to the query with its fixed \<open>k\<close>.
\<close>

definition index_query :: "(string \<Rightarrow> document \<Rightarrow> nat) \<Rightarrow> document list \<Rightarrow> string \<Rightarrow> nat \<Rightarrow> document list" where
  "index_query dist idx q k = take k (sort_key (dist q) idx)"

definition retriever_invoke :: "ext \<Rightarrow> qa_state \<Rightarrow> string \<Rightarrow> (exn + document list) \<times> qa_state" where
  "retriever_invoke X s q =
     (let s' = s\<lparr>calls := calls s @ [EmbedQuery q]\<rparr> in
      case embed_query X q of
        Some e \<Rightarrow> (Inl e, s')
      | None \<Rightarrow> (Inr (index_query (distance X) (vectorstore s) q retriever_k), s'))"

definition QAService_init :: "ext \<Rightarrow> document list \<Rightarrow> exn + qa_state" where
  "QAService_init X vs =
     (case chain_setup X of
        Some e \<Rightarrow> Inl e
      | None \<Rightarrow> Inr \<lparr>vectorstore = vs, calls = []\<rparr>)"

definition ask :: "ext \<Rightarrow> qa_state \<Rightarrow> string \<Rightarrow> (exn + string \<times> document list) \<times> qa_state" where
  "ask X s question =
     (case retriever_invoke X s question of
        (Inl e, s1) \<Rightarrow> (Inl e, s1)
      | (Inr docs, s1) \<Rightarrow>
          (let context = format_docs docs;
               s2 = s1\<lparr>calls := calls s1 @ [ChainInvoke context question]\<rparr>
           in case chain_invoke X context question of
                Inl e \<Rightarrow> (Inl e, s2)
              | Inr result \<Rightarrow> (Inr (result, docs), s2)))"

text \<open>
  \<open>vectorstore.add_documents(chunks)\<close>: embeds the chunks' texts, then adds the vectors and
  the documents. Adding an empty batch raises a \<open>ValueError\<close> after the embedding call;
  otherwise the documents are appended.
\<close>

definition add_documents :: "ext \<Rightarrow> qa_state \<Rightarrow> document list \<Rightarrow> exn option \<times> qa_state" where
  "add_documents X s docs =
     (let s' = s\<lparr>calls := calls s @ [EmbedDocuments (map page_content docs)]\<rparr> in
      case embed_documents X (map page_content docs) of
        Some e \<Rightarrow> (Some e, s')
      | None \<Rightarrow>
          if docs = [] then (Some (ValueError (empty_batch_message X)), s')
          else (None, s'\<lparr>vectorstore := vectorstore s' @ docs\<rparr>))"

definition add_document :: "ext \<Rightarrow> qa_state \<Rightarrow> string \<Rightarrow> metadata \<Rightarrow> (exn + nat) \<times> qa_state" where
  "add_document X s text_content md =
     (let doc = \<lparr>page_content = text_content, metadata = md\<rparr>;
          chunks = split_documents X text_splitter [doc]
      in case add_documents X s chunks of
           (Some e, s') \<Rightarrow> (Inl e, s')
         | (None, s') \<Rightarrow> (Inr (length chunks), s'))"

section \<open>api_fastapi.py\<close>

text \<open>
  \<open>qa_service\<close> is the module-level singleton: the constructed service, or \<open>None\<close> when
  \<open>QAService()\<close> raised. The vector store is built when \<open>vectorstore/store.py\<close> is
  imported, before the service.
\<close>

definition qa_service :: "ext \<Rightarrow> document list \<Rightarrow> qa_state option" where
  "qa_service X vs = (case QAService_init X vs of Inl e \<Rightarrow> None | Inr s \<Rightarrow> Some s)"

definition startup :: "ext \<Rightarrow> exn + qa_state option" where
  "startup X = (case vector_store X of Inl e \<Rightarrow> Inl e | Inr vs \<Rightarrow> Inr (qa_service X vs))"

record source =
  source :: string
  content :: string

record answer_response =
  answer :: string
  sources :: "source list"
  question :: string

subsection \<open>The upload extractors\<close>

definition extract_text_from_txt :: "ext \<Rightarrow> string \<Rightarrow> exn + string" where
  "extract_text_from_txt X bytes = read_txt X bytes"

definition extract_text_from_pdf :: "ext \<Rightarrow> string \<Rightarrow> exn + string" where
  "extract_text_from_pdf X bytes =
     (case pdf_pages X bytes of
        Inl e \<Rightarrow> Inl (Exception (''Error reading PDF: '' @ str_exn X e))
      | Inr pages \<Rightarrow> Inr (concat (map (\<lambda>t. t @ [newline]) pages)))"

definition extract_text_from_docx :: "ext \<Rightarrow> string \<Rightarrow> exn + string" where
  "extract_text_from_docx X bytes =
     (case docx_paragraphs X bytes of
        Inl e \<Rightarrow> Inl (Exception (''Error reading DOCX: '' @ str_exn X e))
      | Inr paragraphs \<Rightarrow> Inr (concat (map (\<lambda>t. t @ [newline]) paragraphs)))"

definition process_uploaded_file :: "ext \<Rightarrow> string \<Rightarrow> string \<Rightarrow> exn + string" where
  "process_uploaded_file X bytes filename =
     (let ext = file_ext filename in
      if ext = ''.txt'' then extract_text_from_txt X bytes
      else if ext = ''.pdf'' then extract_text_from_pdf X bytes
      else if ext \<in> set [''.docx'', ''.doc''] then extract_text_from_docx X bytes
      else Inl (ValueError (''Unsupported file type: '' @ ext)))"

subsection \<open>POST /api/ask/\<close>

definition excerpt :: "string \<Rightarrow> string" where
  "excerpt page = (if length page > 200 then take 200 page @ ''...'' else page)"

definition source_info :: "document \<Rightarrow> source" where
  "source_info doc =
     \<lparr>source = dict_get (metadata doc) ''source'' ''unknown'',
      content = excerpt (page_content doc)\<rparr>"

definition blank :: "string \<Rightarrow> bool" where
  "blank q = (q = [] \<or> strip q = [])"

definition ask_question :: "ext \<Rightarrow> qa_state option \<Rightarrow> string \<Rightarrow> (exn + answer_response) \<times> qa_state option" where
  "ask_question X svc q =
     (case svc of
        None \<Rightarrow>
          (Inl (HTTPException 503 ''QA Service is not initialized. Check your configuration.''), None)
      | Some s \<Rightarrow>
          if blank q then (Inl (HTTPException 400 ''Question cannot be empty''), Some s)
          else (case ask X s q of
                  (Inl e, s') \<Rightarrow>
                    (Inl (HTTPException 500 (''Error processing question: '' @ str_exn X e)), Some s')
                | (Inr (ans, docs), s') \<Rightarrow>
                    (Inr \<lparr>answer = ans, sources = map source_info docs, question = q\<rparr>, Some s')))"

subsection \<open>POST /api/upload/\<close>

record upload_file =
  filename :: string
  file_bytes :: string

record upload_response =
  message :: string
  files_processed :: nat
  filenames :: "string list"
  warnings :: "string list option"

definition supported_exts :: "string list" where
  "supported_exts = [''.txt'', ''.pdf'', ''.docx'', ''.doc'']"

text \<open>
  The loop over the uploaded files, with \<open>processed_files\<close> and \<open>errors\<close> as
  accumulators. Each \<open>continue\<close> is a recursive call on the remaining files. Inside the
  inner \<open>try\<close> the upload is first written to the temporary directory, then read back
  by the extractor; whatever raises there becomes an entry of \<open>errors\<close>. Removing the
  temporary file and directory is taken to succeed. Of the three \<open>hasattr\<close>
  branches only the first can run, since \<open>QAService\<close> defines \<open>add_document\<close>.
\<close>

fun upload_loop :: "ext \<Rightarrow> qa_state \<Rightarrow> upload_file list \<Rightarrow> string list \<Rightarrow> string list
    \<Rightarrow> qa_state \<times> string list \<times> string list" where
  "upload_loop X s [] processed_files errors = (s, processed_files, errors)"
| "upload_loop X s (file # files) processed_files errors =
     (if file_ext (filename file) \<notin> set supported_exts
      then upload_loop X s files processed_files
             (errors @ [filename file @ '': Unsupported file type''])
      else (case save_upload X (filename file) (file_bytes file) of
              Some e \<Rightarrow>
                upload_loop X s files processed_files
                  (errors @ [filename file @ '': '' @ str_exn X e])
            | None \<Rightarrow>
               (case process_uploaded_file X (file_bytes file) (filename file) of
                  Inl e \<Rightarrow>
                    upload_loop X s files processed_files
                      (errors @ [filename file @ '': '' @ str_exn X e])
                | Inr text_content \<Rightarrow>
                    if strip text_content = []
                    then upload_loop X s files processed_files
                           (errors @ [filename file @ '': No text content found''])
                    else (case add_document X s text_content [''source'' \<mapsto> filename file] of
                            (Inl e, s') \<Rightarrow>
                              upload_loop X s' files processed_files
                                (errors @ [filename file @ '': '' @ str_exn X e])
                          | (Inr n, s') \<Rightarrow>
                              upload_loop X s' files (processed_files @ [filename file]) errors))))"

text \<open>The body of the outer \<open>try\<close>: the loop, the guard on \<open>processed_files\<close>, the response.\<close>

definition upload_try :: "ext \<Rightarrow> qa_state \<Rightarrow> upload_file list \<Rightarrow> (exn + upload_response) \<times> qa_state" where
  "upload_try X s files =
     (case upload_loop X s files [] [] of
        (s', processed_files, errors) \<Rightarrow>
          if processed_files = []
          then (Inl (HTTPException 400
                  (''No files were processed successfully. Errors: '' @ join ''; '' errors)), s')
          else (Inr \<lparr>message = ''Files processed successfully'',
                     files_processed = length processed_files,
                     filenames = processed_files,
                     warnings = (if errors = [] then None else Some errors)\<rparr>, s'))"

text \<open>
  The handler: the two guards, then the \<open>try\<close> whose \<open>except Exception\<close> turns
  whatever the body raised into a 500.
\<close>

definition upload_files :: "ext \<Rightarrow> qa_state option \<Rightarrow> upload_file list \<Rightarrow> (exn + upload_response) \<times> qa_state option" where
  "upload_files X svc files =
     (case svc of
        None \<Rightarrow> (Inl (HTTPException 503 ''QA Service is not initialized''), None)
      | Some s \<Rightarrow>
          if files = [] then (Inl (HTTPException 400 ''No files provided''), Some s)
          else (case upload_try X s files of
                  (Inl e, s') \<Rightarrow>
                    (Inl (HTTPException 500 (''Error processing files: '' @ str_exn X e)), Some s')
                | (Inr response, s') \<Rightarrow> (Inr response, Some s')))"

section \<open>A concrete set of collaborators\<close>

text \<open>
  Collaborators under which the external calls succeed: the splitter returns the
  documents unsplit, the chain answers \<open>ok\<close>, the loaders return one document, the
  readers return the bytes, and \<open>str\<close> of an \<open>HTTPException\<close> is \<open>status: detail\<close>,
  Starlette's rendering. Saving an upload fails when its name has a slash, the
  temporary directory having no subdirectory.
\<close>

definition quiet_loaders :: loaders where
  "quiet_loaders =
     \<lparr>pdf_loader = (\<lambda>p. Inr [\<lparr>page_content = ''pdf'', metadata = [''source'' \<mapsto> p]\<rparr>]),
      docx_loader = (\<lambda>p. Inr [\<lparr>page_content = ''docx'', metadata = [''source'' \<mapsto> p]\<rparr>]),
      text_loader = (\<lambda>p. Inr [\<lparr>page_content = ''txt'', metadata = [''source'' \<mapsto> p]\<rparr>]),
      web_loader = (\<lambda>u. Inr [\<lparr>page_content = ''web'', metadata = [''source'' \<mapsto> u]\<rparr>])\<rparr>"

definition quiet_ext :: ext where
  "quiet_ext =
     \<lparr>split_documents = (\<lambda>cfg docs. docs),
      embed_documents = (\<lambda>texts. None),
      embed_query = (\<lambda>q. None),
      empty_batch_message = ''empty batch'',
      distance = (\<lambda>q d. 0),
      chain_invoke = (\<lambda>context q. Inr ''ok''),
      chain_setup = None,
      doc_loaders = quiet_loaders,
      save_upload =
        (\<lambda>name bytes. if CHR ''/'' \<in> set name
           then Some (Exception ''[Errno 2] No such file or directory'') else None),
      read_txt = (\<lambda>bytes. Inr bytes),
      pdf_pages = (\<lambda>bytes. Inr [bytes]),
      docx_paragraphs = (\<lambda>bytes. Inr [bytes]),
      http_str = (\<lambda>status detail. str_nat status @ '': '' @ detail)\<rparr>"



definition fresh_state :: qa_state where
  "fresh_state = \<lparr>vectorstore = [dummy_doc], calls = []\<rparr>"

text \<open>
  The service states a run can reach: the state after start-up, and every state a
  request handler or a direct call of the service leaves behind.
\<close>

inductive reachable :: "ext \<Rightarrow> qa_state \<Rightarrow> bool" for X :: ext where
  start: "startup X = Inr (Some s) \<Longrightarrow> reachable X s"
| after_ask: "reachable X s \<Longrightarrow> snd (ask X s q) = s' \<Longrightarrow> reachable X s'"
| after_add: "reachable X s \<Longrightarrow> snd (add_document X s text_content md) = s' \<Longrightarrow> reachable X s'"
| after_ask_question:
    "reachable X s \<Longrightarrow> snd (ask_question X (Some s) q) = Some s' \<Longrightarrow> reachable X s'"
| after_upload:
    "reachable X s \<Longrightarrow> snd (upload_files X (Some s) files) = Some s' \<Longrightarrow> reachable X s'"

section \<open>Evaluation lemmas\<close>

lemma ext_examples:
  "file_ext ''report.PDF'' = ''.pdf''"
  "file_ext ''notes/plan.docx'' = ''.docx''"
  "file_ext ''readme.txt'' = ''.txt''"
  "file_ext ''legacy.doc'' = ''.doc''"
  "file_ext ''setup.exe'' = ''.exe''"
  by code_simp+

lemma chunker_ext: "file_ext chunker_path = ''.docx''"
  by code_simp

section \<open>The chunking configuration\<close>



section \<open>The loader\<close>

text \<open>
  C7. \<open>load_file\<close> dispatches on the lower-cased extension of the path: \<open>.pdf\<close>,
  \<open>.docx\<close> and \<open>.txt\<close> each go to their own loader, and every other extension
  raises \<open>ValueError('unsupported file format')\<close>.
\<close>

theorem load_file_dispatch:
  "(file_ext p = ''.pdf'' \<longrightarrow> load_file L p = pdf_loader L p) \<and>
   (file_ext p = ''.docx'' \<longrightarrow> load_file L p = docx_loader L p) \<and>
   (file_ext p = ''.txt'' \<longrightarrow> load_file L p = text_loader L p) \<and>
   (file_ext p \<notin> {''.pdf'', ''.docx'', ''.txt''} \<longrightarrow>
      load_file L p = Inl (ValueError ''unsupported file format''))"
  by (simp add: load_file_def)

theorem load_file_dispatch_witness:
  "file_ext ''report.PDF'' = ''.pdf'' \<and>
   load_file quiet_loaders ''report.PDF'' = pdf_loader quiet_loaders ''report.PDF'' \<and>
   file_ext ''notes/plan.docx'' = ''.docx'' \<and>
   load_file quiet_loaders ''notes/plan.docx'' = docx_loader quiet_loaders ''notes/plan.docx'' \<and>
   file_ext ''readme.txt'' = ''.txt'' \<and>
   load_file quiet_loaders ''readme.txt'' = text_loader quiet_loaders ''readme.txt'' \<and>
   file_ext ''legacy.doc'' \<notin> {''.pdf'', ''.docx'', ''.txt''} \<and>
   load_file quiet_loaders ''legacy.doc'' = Inl (ValueError ''unsupported file format'')"
  using load_file_dispatch [of "''report.PDF''" quiet_loaders]
    load_file_dispatch [of "''notes/plan.docx''" quiet_loaders]
    load_file_dispatch [of "''readme.txt''" quiet_loaders]
    load_file_dispatch [of "''legacy.doc''" quiet_loaders]
  by (simp add: ext_examples)

section \<open>The context block\<close>

text \<open>
  C8 (as the code has it). \<open>format_docs\<close> renders each retrieved chunk as
  \<open>Source: <source>\<close>, a newline, one space, then the chunk's content; the source is
  the empty string when the metadata has none. The blocks follow each other in ranked
  order, separated by two newlines, and no documents give the empty string.
\<close>

theorem format_docs_blocks:
  "format_docs [] = [] \<and>
   format_docs [d] =
     ''Source: '' @ dict_get (metadata d) ''source'' '''' @ [newline] @ '' '' @ page_content d \<and>
   format_docs (d # d' # ds) = format_docs [d] @ [newline, newline] @ format_docs (d' # ds)"
  by (simp add: format_docs_def format_doc_def)

text \<open>
  The content does not follow the newline immediately: for one chunk with source \<open>a\<close>
  and content \<open>b\<close> the block is not \<open>Source: a\<close>, newline, \<open>b\<close>.
\<close>

theorem format_docs_no_space_counterexample:
  "format_docs [\<lparr>page_content = ''b'', metadata = [''source'' \<mapsto> ''a'']\<rparr>]
     \<noteq> ''Source: a'' @ [newline] @ ''b''"
  by (simp add: format_docs_def format_doc_def dict_get_def newline_def)

section \<open>Blank strings\<close>

lemma strip_empty_iff: "strip s = [] \<longleftrightarrow> (\<forall>c\<in>set s. isspace c)"
proof -
  have "strip s = [] \<longleftrightarrow> (\<forall>c\<in>set (dropWhile isspace s). isspace c)"
    by (simp only: strip_def rev_is_Nil_conv dropWhile_eq_Nil_conv set_rev)
  also have "\<dots> \<longleftrightarrow> dropWhile isspace s = []"
    using hd_dropWhile [of isspace s] by (cases "dropWhile isspace s") (auto dest: set_dropWhileD)
  also have "\<dots> \<longleftrightarrow> (\<forall>c\<in>set s. isspace c)"
    by (rule dropWhile_eq_Nil_conv)
  finally show ?thesis .
qed

lemma blank_iff: "blank q \<longleftrightarrow> (\<forall>c\<in>set q. isspace c)"
  by (auto simp: blank_def strip_empty_iff)

lemma blank_examples:
  "blank ''''" "blank ''   ''" "blank [CHR 0xA0, newline, CHR 0x85]" "\<not> blank ''why?''"
  by (simp_all add: blank_iff isspace_def newline_def)

section \<open>The vector store only grows\<close>

lemma ask_vectorstore: "vectorstore (snd (ask X s q)) = vectorstore s"
  by (simp add: ask_def retriever_invoke_def Let_def split: option.splits sum.splits)

lemma add_document_vectorstore:
  "\<exists>ys. vectorstore (snd (add_document X s t md)) = vectorstore s @ ys"
  by (simp add: add_document_def add_documents_def Let_def split: option.splits if_splits)

lemma upload_loop_vectorstore:
  "\<exists>ys. vectorstore (fst (upload_loop X s files ps es)) = vectorstore s @ ys"
proof (induction files arbitrary: s ps es)
  case Nil
  show ?case by simp
next
  case (Cons f files)
  have step: "\<exists>ys. vectorstore (fst (upload_loop X s' files ps' es')) = vectorstore s @ ys"
    if "\<exists>zs. vectorstore s' = vectorstore s @ zs" for s' ps' es'
  proof -
    from that obtain zs where zs: "vectorstore s' = vectorstore s @ zs" by blast
    from Cons.IH [of s' ps' es'] obtain ys
      where "vectorstore (fst (upload_loop X s' files ps' es')) = vectorstore s' @ ys" by blast
    with zs show ?thesis by simp
  qed
  have same: "\<exists>zs. vectorstore s = vectorstore s @ zs" by simp
  show ?case
  proof (cases "file_ext (filename f) \<notin> set supported_exts")
    case True
    then show ?thesis using step [OF same] by simp
  next
    case False
    show ?thesis
    proof (cases "save_upload X (filename f) (file_bytes f)")
      case (Some e)
      then show ?thesis using False step [OF same] by simp
    next
      case None
      show ?thesis
      proof (cases "process_uploaded_file X (file_bytes f) (filename f)")
        case (Inl e)
        then show ?thesis using False None step [OF same] by simp
      next
        case (Inr t)
        show ?thesis
        proof (cases "strip t = []")
          case True
          then show ?thesis using False None Inr step [OF same] by simp
        next
          case nonblank: False
          obtain r s' where r: "add_document X s t [''source'' \<mapsto> filename f] = (r, s')"
            by (cases "add_document X s t [''source'' \<mapsto> filename f]")
          from add_document_vectorstore [of X s t "[''source'' \<mapsto> filename f]"] r
          have "\<exists>zs. vectorstore s' = vectorstore s @ zs" by simp
          then show ?thesis using False None Inr nonblank r step
            by (cases r) simp_all
        qed
      qed
    qed
  qed
qed

lemma upload_files_vectorstore:
  "snd (upload_files X (Some s) files) = Some s' \<Longrightarrow> \<exists>ys. vectorstore s' = vectorstore s @ ys"
  using upload_loop_vectorstore [of X s files "[]" "[]"]
  by (auto simp: upload_files_def upload_try_def split: if_splits prod.splits sum.splits)

lemma ask_question_vectorstore:
  "snd (ask_question X (Some s) q) = Some s' \<Longrightarrow> vectorstore s' = vectorstore s"
  using ask_vectorstore [of X s q]
  by (auto simp: ask_question_def split: if_splits prod.splits sum.splits)

lemma startup_state:
  "startup X = Inr (Some s) \<Longrightarrow> s = fresh_state"
  by (auto simp: startup_def vector_store_def qa_service_def QAService_init_def fresh_state_def
      split: option.splits sum.splits)

lemma reachable_placeholder:
  "reachable X s \<Longrightarrow> \<exists>ys. vectorstore s = dummy_doc # ys"
proof (induction rule: reachable.induct)
  case (start s)
  then show ?case using startup_state [of X s] by (simp add: fresh_state_def)
next
  case (after_ask s q s')
  then show ?case using ask_vectorstore [of X s q] by auto
next
  case (after_add s t md s')
  then show ?case using add_document_vectorstore [of X s t md] by auto
next
  case (after_ask_question s q s')
  then show ?case using ask_question_vectorstore [of X s q s'] by auto
next
  case (after_upload s files s')
  then show ?case using upload_files_vectorstore [of X s files s'] by auto
qed

section \<open>The service on a fresh index\<close>

lemma index_query_single: "index_query dist [d] q retriever_k = [d]"
  by (simp add: index_query_def retriever_k_def)

lemma format_placeholder:
  "format_docs [dummy_doc] = ''Source: system'' @ [newline] @ '' Placeholder''"
  by (simp add: format_docs_def format_doc_def dummy_doc_def dict_get_def)

lemma retriever_fresh:
  "retriever_invoke quiet_ext fresh_state q =
     (Inr [dummy_doc], \<lparr>vectorstore = [dummy_doc], calls = [EmbedQuery q]\<rparr>)"
  by (simp add: retriever_invoke_def quiet_ext_def fresh_state_def index_query_single)

lemma ask_fresh:
  "ask quiet_ext fresh_state q =
     (Inr (''ok'', [dummy_doc]),
      \<lparr>vectorstore = [dummy_doc],
       calls = [EmbedQuery q, ChainInvoke (''Source: system'' @ [newline] @ '' Placeholder'') q]\<rparr>)"
  by (simp add: ask_def retriever_fresh format_placeholder Let_def) (simp add: quiet_ext_def)

lemma vector_store_quiet: "vector_store quiet_ext = Inr [dummy_doc]"
  by (simp add: vector_store_def chunker_docs_def load_file_def chunker_ext quiet_ext_def
      quiet_loaders_def)

lemma startup_quiet: "startup quiet_ext = Inr (Some fresh_state)"
  by (simp add: startup_def vector_store_quiet qa_service_def QAService_init_def fresh_state_def)
    (simp add: quiet_ext_def)

lemma exe_unsupported: "file_ext ''setup.exe'' \<notin> set supported_exts"
  by (simp add: ext_examples supported_exts_def)

lemma str_400: "str_nat 400 = ''400''"
  by code_simp

section \<open>Ingestion through the service\<close>

lemma add_document_no_chunks:
  assumes "split_documents X text_splitter [\<lparr>page_content = text_content, metadata = md\<rparr>] = []"
    and "embed_documents X [] = None"
  shows "fst (add_document X s text_content md) = Inl (ValueError (empty_batch_message X)) \<and>
    vectorstore (snd (add_document X s text_content md)) = vectorstore s"
  using assms by (simp add: add_document_def add_documents_def Let_def)




section \<open>Asking\<close>

text \<open>
  C3 (as the code has it). The blank check is in the HTTP handler \<open>ask_question\<close>: with
  the service initialised, a question that is empty or consists of whitespace only
  (Python's \<open>str.isspace\<close>, the no-break space and next line included) is answered
  with status 400 and detail \<open>Question cannot be empty\<close>, and the service state (vector
  store and external calls) is left as it was. A question that is not blank is passed to
  \<open>QAService.ask\<close>, whose result becomes the response or a 500. \<open>QAService.ask\<close> itself
  checks nothing: for every question, when the retriever and the chain do not raise, it
  returns the chain's answer on the formatted retrieved documents together with those
  documents, and it never changes the vector store. Without a service every question,
  blank or not, is answered with status 503.
\<close>

theorem ask_question_rejects_blank:
  "(blank q \<longrightarrow>
      ask_question X (Some s) q = (Inl (HTTPException 400 ''Question cannot be empty''), Some s)) \<and>
   (\<not> blank q \<longrightarrow>
      ask_question X (Some s) q =
        (case ask X s q of
           (Inl e, s') \<Rightarrow>
             (Inl (HTTPException 500 (''Error processing question: '' @ str_exn X e)), Some s')
         | (Inr (a, docs), s') \<Rightarrow>
             (Inr \<lparr>answer = a, sources = map source_info docs, question = q\<rparr>, Some s'))) \<and>
   (retriever_invoke X s q = (Inr docs, s1) \<and> chain_invoke X (format_docs docs) q = Inr a \<longrightarrow>
      ask X s q = (Inr (a, docs), s1\<lparr>calls := calls s1 @ [ChainInvoke (format_docs docs) q]\<rparr>)) \<and>
   vectorstore (snd (ask X s q)) = vectorstore s \<and>
   ask_question X None q =
     (Inl (HTTPException 503 ''QA Service is not initialized. Check your configuration.''), None)"
  by (simp add: ask_question_def ask_def ask_vectorstore [unfolded ask_def] Let_def)

theorem ask_question_rejects_blank_witness:
  "blank ''   '' \<and>
   ask_question quiet_ext (Some fresh_state) ''   '' =
     (Inl (HTTPException 400 ''Question cannot be empty''), Some fresh_state) \<and>
   blank [CHR 0xA0, newline, CHR 0x85] \<and>
   ask_question quiet_ext (Some fresh_state) [CHR 0xA0, newline, CHR 0x85] =
     (Inl (HTTPException 400 ''Question cannot be empty''), Some fresh_state) \<and>
   \<not> blank ''why?'' \<and>
   fst (ask_question quiet_ext (Some fresh_state) ''why?'') =
     Inr \<lparr>answer = ''ok'', sources = map source_info [dummy_doc], question = ''why?''\<rparr> \<and>
   retriever_invoke quiet_ext fresh_state ''why?'' =
     (Inr [dummy_doc], \<lparr>vectorstore = [dummy_doc], calls = [EmbedQuery ''why?'']\<rparr>) \<and>
   chain_invoke quiet_ext (format_docs [dummy_doc]) ''why?'' = Inr ''ok'' \<and>
   fst (ask quiet_ext fresh_state ''why?'') = Inr (''ok'', [dummy_doc])"
proof -
  let ?s1 = "\<lparr>vectorstore = [dummy_doc], calls = [EmbedQuery ''why?'']\<rparr>"
  have chain: "chain_invoke quiet_ext (format_docs [dummy_doc]) ''why?'' = Inr ''ok''"
    by (simp add: quiet_ext_def)
  have spaces: "ask_question quiet_ext (Some fresh_state) ''   '' =
      (Inl (HTTPException 400 ''Question cannot be empty''), Some fresh_state)"
    using ask_question_rejects_blank [of "''   ''" quiet_ext fresh_state "[]" fresh_state "''''"]
      blank_examples by blast
  have latin: "ask_question quiet_ext (Some fresh_state) [CHR 0xA0, newline, CHR 0x85] =
      (Inl (HTTPException 400 ''Question cannot be empty''), Some fresh_state)"
    using ask_question_rejects_blank
      [of "[CHR 0xA0, newline, CHR 0x85]" quiet_ext fresh_state "[]" fresh_state "''''"]
      blank_examples by blast
  have why: "ask_question quiet_ext (Some fresh_state) ''why?'' =
        (case ask quiet_ext fresh_state ''why?'' of
           (Inl e, s') \<Rightarrow>
             (Inl (HTTPException 500 (''Error processing question: '' @ str_exn quiet_ext e)),
              Some s')
         | (Inr (a, docs), s') \<Rightarrow>
             (Inr \<lparr>answer = a, sources = map source_info docs, question = ''why?''\<rparr>, Some s'))"
    and composed: "ask quiet_ext fresh_state ''why?'' =
        (Inr (''ok'', [dummy_doc]),
         ?s1\<lparr>calls := calls ?s1 @ [ChainInvoke (format_docs [dummy_doc]) ''why?'']\<rparr>)"
    using ask_question_rejects_blank
      [of "''why?''" quiet_ext fresh_state "[dummy_doc]" ?s1 "''ok''"]
      blank_examples retriever_fresh [of "''why?''"] chain by blast+
  show ?thesis
    using spaces latin why composed chain
    by (simp add: blank_examples retriever_fresh)
qed

text \<open>
  \<open>QAService.ask\<close> on the empty question does not fail: on a fresh service whose
  collaborators succeed it returns an answer, after a retriever call and a model call.
\<close>

theorem ask_blank_counterexample:
  "fst (ask quiet_ext fresh_state '''') = Inr (''ok'', [dummy_doc]) \<and>
   calls (snd (ask quiet_ext fresh_state '''')) =
     [EmbedQuery '''', ChainInvoke (''Source: system'' @ [newline] @ '' Placeholder'') '''']"
  by (simp add: ask_fresh)

text \<open>
  C9. The \<open>content\<close> of a source entry is the retrieved chunk's content when that has at
  most 200 characters, and its first 200 characters followed by \<open>...\<close> when it has
  more. The sources of a response are built this way from the retrieved documents, in
  their order.
\<close>

theorem sources_excerpt_200:
  "(length (page_content d) \<le> 200 \<longrightarrow> content (source_info d) = page_content d) \<and>
   (200 < length (page_content d) \<longrightarrow>
      content (source_info d) = take 200 (page_content d) @ ''...'') \<and>
   (\<not> blank q \<and> ask X s q = (Inr (a, docs), s') \<longrightarrow>
      (\<exists>r. fst (ask_question X (Some s) q) = Inr r \<and> sources r = map source_info docs))"
  by (simp add: source_info_def excerpt_def ask_question_def)

theorem sources_excerpt_200_witness:
  "length (page_content dummy_doc) \<le> 200 \<and>
   content (source_info dummy_doc) = ''Placeholder'' \<and>
   200 < length (page_content \<lparr>page_content = replicate 201 (CHR ''a''), metadata = Map.empty\<rparr>) \<and>
   content (source_info \<lparr>page_content = replicate 201 (CHR ''a''), metadata = Map.empty\<rparr>) =
     replicate 200 (CHR ''a'') @ ''...'' \<and>
   \<not> blank ''why?'' \<and>
   ask quiet_ext fresh_state ''why?'' =
     (Inr (''ok'', [dummy_doc]),
      \<lparr>vectorstore = [dummy_doc],
       calls = [EmbedQuery ''why?'',
                ChainInvoke (''Source: system'' @ [newline] @ '' Placeholder'') ''why?'']\<rparr>) \<and>
   (\<exists>r. fst (ask_question quiet_ext (Some fresh_state) ''why?'') = Inr r \<and>
        sources r = map source_info [dummy_doc])"
  using sources_excerpt_200 [of dummy_doc "''why?''" quiet_ext fresh_state "''ok''" "[dummy_doc]"
      "\<lparr>vectorstore = [dummy_doc],
        calls = [EmbedQuery ''why?'',
                 ChainInvoke (''Source: system'' @ [newline] @ '' Placeholder'') ''why?'']\<rparr>"]
    sources_excerpt_200 [of "\<lparr>page_content = replicate 201 (CHR ''a''), metadata = Map.empty\<rparr>"]
  by (simp add: blank_examples ask_fresh dummy_doc_def)

section \<open>Uploading\<close>

text \<open>
  C6 (as the code has it). When the only uploaded file has an extension outside
  \<open>.txt\<close>, \<open>.pdf\<close>, \<open>.docx\<close>, \<open>.doc\<close>, nothing is processed and the guard on the empty
  list of processed files raises an \<open>HTTPException\<close> with status 400 whose detail is
  \<open>No files were processed successfully. Errors: <name>: Unsupported file type\<close>. The
  handler therefore ends in an exception, never in a response body with a
  \<open>files_processed\<close> field, and the service state is unchanged.
\<close>

theorem upload_only_unsupported_file:
  assumes "file_ext (filename f) \<notin> set supported_exts"
  shows "upload_try X s [f] =
      (Inl (HTTPException 400
         (''No files were processed successfully. Errors: '' @ filename f @
          '': Unsupported file type'')), s) \<and>
    isl (fst (upload_files X (Some s) [f])) \<and>
    snd (upload_files X (Some s) [f]) = Some s"
proof -
  have loop: "upload_loop X s [f] [] [] = (s, [], [filename f @ '': Unsupported file type''])"
    using assms by simp
  then have body: "upload_try X s [f] =
      (Inl (HTTPException 400
         (''No files were processed successfully. Errors: '' @ filename f @
          '': Unsupported file type'')), s)"
    by (simp add: upload_try_def)
  then show ?thesis
    by (simp add: upload_files_def)
qed

theorem upload_only_unsupported_file_witness:
  "file_ext (filename \<lparr>filename = ''setup.exe'', file_bytes = ''MZ''\<rparr>) \<notin> set supported_exts \<and>
   upload_try quiet_ext fresh_state [\<lparr>filename = ''setup.exe'', file_bytes = ''MZ''\<rparr>] =
     (Inl (HTTPException 400
        ''No files were processed successfully. Errors: setup.exe: Unsupported file type''),
      fresh_state) \<and>
   isl (fst (upload_files quiet_ext (Some fresh_state)
     [\<lparr>filename = ''setup.exe'', file_bytes = ''MZ''\<rparr>])) \<and>
   snd (upload_files quiet_ext (Some fresh_state)
     [\<lparr>filename = ''setup.exe'', file_bytes = ''MZ''\<rparr>]) = Some fresh_state"
  using upload_only_unsupported_file
    [of "\<lparr>filename = ''setup.exe'', file_bytes = ''MZ''\<rparr>" quiet_ext fresh_state]
  by (simp add: exe_unsupported)

text \<open>
  Uploading \<open>setup.exe\<close> alone gives an exception, not a response that reports
  \<open>files_processed == 0\<close>.
\<close>

theorem upload_exe_counterexample:
  "fst (upload_files quiet_ext (Some fresh_state) [\<lparr>filename = ''setup.exe'', file_bytes = ''MZ''\<rparr>])
     = Inl (HTTPException 500
         ''Error processing files: 400: No files were processed successfully. Errors: setup.exe: Unsupported file type'')"
  by (simp add: upload_files_def upload_try_def exe_unsupported str_exn_def)
    (simp add: quiet_ext_def str_400)

section \<open>The placeholder entry\<close>

text \<open>
  C10. The vector store is built from one document with content \<open>Placeholder\<close> and
  metadata source \<open>system\<close>. After start-up it holds exactly this document; in every
  state the service can reach it is still the first entry, since the only mutation
  appends; and a response to a question put to the freshly started service lists
  exactly one source, \<open>system\<close> with content \<open>Placeholder\<close>.
\<close>

theorem placeholder_stays_indexed:
  "page_content dummy_doc = ''Placeholder'' \<and>
   metadata dummy_doc ''source'' = Some ''system'' \<and>
   (startup X = Inr (Some s0) \<longrightarrow> vectorstore s0 = [dummy_doc]) \<and>
   (reachable X s \<longrightarrow> (\<exists>rest. vectorstore s = dummy_doc # rest)) \<and>
   (startup X = Inr (Some s0) \<and> fst (ask_question X (Some s0) q) = Inr r \<longrightarrow>
      sources r = [\<lparr>source = ''system'', content = ''Placeholder''\<rparr>])"
proof -
  have doc: "page_content dummy_doc = ''Placeholder'' \<and> metadata dummy_doc ''source'' = Some ''system''"
    by (simp add: dummy_doc_def)
  have info: "source_info dummy_doc = \<lparr>source = ''system'', content = ''Placeholder''\<rparr>"
    by (simp add: source_info_def excerpt_def dummy_doc_def dict_get_def)
  have fresh: "sources r = [\<lparr>source = ''system'', content = ''Placeholder''\<rparr>]"
    if "fst (ask_question X (Some fresh_state) q) = Inr r"
    using that info
    by (auto simp: ask_question_def ask_def retriever_invoke_def fresh_state_def
        index_query_single Let_def split: if_splits option.splits sum.splits)
  show ?thesis
    using doc reachable_placeholder [of X s] startup_state [of X s0] fresh
    by (auto simp: fresh_state_def)
qed

theorem placeholder_stays_indexed_witness:
  "startup quiet_ext = Inr (Some fresh_state) \<and>
   vectorstore fresh_state = [dummy_doc] \<and>
   reachable quiet_ext
     (snd (add_document quiet_ext fresh_state ''The sky is blue.'' [''source'' \<mapsto> ''facts.txt''])) \<and>
   (\<exists>rest. vectorstore
      (snd (add_document quiet_ext fresh_state ''The sky is blue.'' [''source'' \<mapsto> ''facts.txt'']))
      = dummy_doc # rest) \<and>
   fst (ask_question quiet_ext (Some fresh_state) ''why?'') =
     Inr \<lparr>answer = ''ok'', sources = map source_info [dummy_doc], question = ''why?''\<rparr> \<and>
   sources \<lparr>answer = ''ok'', sources = map source_info [dummy_doc], question = ''why?''\<rparr> =
     [\<lparr>source = ''system'', content = ''Placeholder''\<rparr>]"
proof -
  let ?s = "snd (add_document quiet_ext fresh_state ''The sky is blue.'' [''source'' \<mapsto> ''facts.txt''])"
  let ?r = "\<lparr>answer = ''ok'', sources = map source_info [dummy_doc], question = ''why?''\<rparr>"
  have reach: "reachable quiet_ext ?s"
    by (rule reachable.after_add [OF reachable.start [OF startup_quiet] refl])
  have answer: "fst (ask_question quiet_ext (Some fresh_state) ''why?'') = Inr ?r"
    by (simp add: ask_question_def blank_examples ask_fresh)
  show ?thesis
    using placeholder_stays_indexed [of quiet_ext fresh_state ?s "''why?''" ?r]
      startup_quiet reach answer
    by simp
qed

end
